theory Spec2Isabelle
  imports Main "HOL-Library.Sublist"
begin

section \<open>Error values (pkg/tfcli/errors/errors.go)\<close>

text \<open>
  Modelled from the spec: \<open>model.OperationType\<close> is declared in a package that is not part
  of the sources at hand. The spec speaks of operation kinds "apply, destroy, etc."; the
  source names the two constants \<open>model.OperationApply\<close> and \<open>model.OperationDestroy\<close>.
  Every further kind is \<open>OperationOther n\<close>.
\<close>

datatype OperationType = OperationApply | OperationDestroy | OperationOther nat

text \<open>\<open>type PipelineState string\<close> with its three constants.\<close>

type_synonym PipelineState = string

definition PipelineNotStarted :: PipelineState where
  "PipelineNotStarted = ''Asynchronous Terraform pipeline not started yet''"

definition PipelineStateLocked :: PipelineState where
  "PipelineStateLocked = ''Terraform CLI is still running''"

definition PipelineStateNoStore :: PipelineState where
  "PipelineStateNoStore = ''Result is not available yet''"

text \<open>The two error structs, each with its single unexported field.\<close>

record OperationInProgressError =
  op :: OperationType

record PipelineInProgressError =
  pipelineState :: PipelineState

text \<open>
  A non-nil value of Go's \<open>error\<close> interface, by dynamic type. A nil interface value is
  \<open>None\<close> of \<open>error option\<close>.
  \<^item> \<open>ErrNotExist\<close>: a file-system error for which \<open>os.IsNotExist\<close> answers true;
  \<^item> \<open>ErrorString m\<close>: any other leaf error (\<open>errors.New\<close>, I/O and process failures);
  \<^item> \<open>OperationInProgress\<close>, \<open>PipelineInProgress\<close>: the two struct types of this package,
    used as values (their methods have value receivers);
  \<^item> \<open>WithMessage cause m\<close>: the wrapper built by \<open>errors.Wrap\<close>/\<open>errors.Wrapf\<close> of
    github.com/pkg/errors, whose \<open>Unwrap\<close> gives \<open>cause\<close>.
  None of these types has an \<open>As\<close> method; only the two structs have an \<open>Is\<close> method.
\<close>

datatype error =
    ErrNotExist
  | ErrorString string
  | OperationInProgress OperationInProgressError
  | PipelineInProgress PipelineInProgressError
  | WithMessage error string

text \<open>\<open>errors.Wrap(err, message)\<close> of github.com/pkg/errors: nil stays nil.\<close>

fun Wrap :: "error option \<Rightarrow> string \<Rightarrow> error option" where
  "Wrap None message = None"
| "Wrap (Some err) message = Some (WithMessage err message)"

text \<open>\<open>errors.Cause(err)\<close> of github.com/pkg/errors: the innermost error of the chain.\<close>

fun Cause :: "error \<Rightarrow> error" where
  "Cause (WithMessage cause m) = Cause cause"
| "Cause e = e"

definition GetOperation :: "OperationInProgressError \<Rightarrow> OperationType" where
  "GetOperation o' = op o'"

text \<open>
  \<open>func (o OperationInProgressError) Is(err error) bool\<close>: a type assertion on the
  argument, nothing else.
\<close>

fun OperationInProgressError_Is :: "OperationInProgressError \<Rightarrow> error option \<Rightarrow> bool" where
  "OperationInProgressError_Is o' (Some (OperationInProgress x)) = True"
| "OperationInProgressError_Is o' err = False"

fun PipelineInProgressError_Is :: "PipelineInProgressError \<Rightarrow> error option \<Rightarrow> bool" where
  "PipelineInProgressError_Is p (Some (PipelineInProgress x)) = True"
| "PipelineInProgressError_Is p err = False"

definition NewOperationInProgressError :: "OperationType \<Rightarrow> error option" where
  "NewOperationInProgressError opType = Some (OperationInProgress \<lparr>op = opType\<rparr>)"

definition NewPipelineInProgressError :: "PipelineState \<Rightarrow> error option" where
  "NewPipelineInProgressError state = Some (PipelineInProgress \<lparr>pipelineState = state\<rparr>)"

text \<open>
  \<open>errors.As(err, target)\<close> of the standard library (github.com/pkg/errors forwards to
  it), once for each target type used in this package. It walks the \<open>Unwrap\<close> chain and
  stops at the first error whose dynamic type is the target's; the result \<open>Some x\<close> stands
  for "true, with \<open>*target = x\<close>", \<open>None\<close> for "false, target untouched". Both targets are
  non-nil pointers to a type that implements \<open>error\<close>, so the panics of \<open>errors.As\<close>
  (nil target, target not a pointer, element type not an error) cannot occur.
\<close>

fun As_chain_OperationInProgressError :: "error \<Rightarrow> OperationInProgressError option" where
  "As_chain_OperationInProgressError (OperationInProgress x) = Some x"
| "As_chain_OperationInProgressError (WithMessage cause m) = As_chain_OperationInProgressError cause"
| "As_chain_OperationInProgressError e = None"

fun errors_As_OperationInProgressError :: "error option \<Rightarrow> OperationInProgressError option" where
  "errors_As_OperationInProgressError None = None"
| "errors_As_OperationInProgressError (Some e) = As_chain_OperationInProgressError e"

fun As_chain_PipelineInProgressError :: "error \<Rightarrow> PipelineInProgressError option" where
  "As_chain_PipelineInProgressError (PipelineInProgress x) = Some x"
| "As_chain_PipelineInProgressError (WithMessage cause m) = As_chain_PipelineInProgressError cause"
| "As_chain_PipelineInProgressError e = None"

fun errors_As_PipelineInProgressError :: "error option \<Rightarrow> PipelineInProgressError option" where
  "errors_As_PipelineInProgressError None = None"
| "errors_As_PipelineInProgressError (Some e) = As_chain_PipelineInProgressError e"

text \<open>
  \<open>errors.Is(err, target)\<close> of the standard library, Go's generic error equality: at each
  link of the chain, \<open>err == target\<close>, else the link's own \<open>Is\<close> method if it has one, else
  unwrap. Interface equality \<open>==\<close> is equality of dynamic type and value; for the pointer
  wrapper \<open>WithMessage\<close> the model compares contents.
\<close>

fun Is_chain :: "error \<Rightarrow> error \<Rightarrow> bool" where
  "Is_chain (OperationInProgress x) target =
     (OperationInProgress x = target \<or> OperationInProgressError_Is x (Some target))"
| "Is_chain (PipelineInProgress x) target =
     (PipelineInProgress x = target \<or> PipelineInProgressError_Is x (Some target))"
| "Is_chain (WithMessage cause m) target =
     (WithMessage cause m = target \<or> Is_chain cause target)"
| "Is_chain e target = (e = target)"

fun errors_Is :: "error option \<Rightarrow> error option \<Rightarrow> bool" where
  "errors_Is (Some err) (Some target) = Is_chain err target"
| "errors_Is err target = (err = target)"

text \<open>
  \<open>IsOperationInProgress\<close>: \<open>errors.As(err, opErr) && (opType == opErr.GetOperation())\<close>.
  The right operand is evaluated only when \<open>errors.As\<close> answered true.
\<close>

definition IsOperationInProgress :: "error option \<Rightarrow> OperationType \<Rightarrow> bool" where
  "IsOperationInProgress err opType =
     (case errors_As_OperationInProgressError err of
        None \<Rightarrow> False
      | Some opErr \<Rightarrow> opType = GetOperation opErr)"

definition IsApplying :: "error option \<Rightarrow> bool" where
  "IsApplying err = IsOperationInProgress err OperationApply"

definition IsDestroying :: "error option \<Rightarrow> bool" where
  "IsDestroying err = IsOperationInProgress err OperationDestroy"

definition IsPipelineInProgress :: "error option \<Rightarrow> PipelineState \<times> bool" where
  "IsPipelineInProgress err =
     (case errors_As_PipelineInProgressError err of
        Some stateErr \<Rightarrow> (pipelineState stateErr, True)
      | None \<Rightarrow> (''invalid'', False))"


section \<open>Redaction (pkg/terraform/store.go, filterSensitiveInformation)\<close>

text \<open>
  \<open>strings.ReplaceAll(s, old, new)\<close> of the standard library on byte strings. For a
  non-empty \<open>old\<close> it replaces the non-overlapping occurrences of \<open>old\<close>, found from left
  to right, by \<open>new\<close>. For an empty \<open>old\<close> the library inserts \<open>new\<close> before every UTF-8
  sequence and at the end; the equation for that case is exact on single-byte characters
  only, and the only caller in the source never passes an empty \<open>old\<close>.
\<close>

function ReplaceAll :: "string \<Rightarrow> string \<Rightarrow> string \<Rightarrow> string" where
  "ReplaceAll [] old new = (if old = [] then new else [])"
| "ReplaceAll (c # cs) old new =
     (if old = [] then new @ concat (map (\<lambda>x. x # new) (c # cs))
      else if prefix old (c # cs) then new @ ReplaceAll (drop (length old) (c # cs)) old new
      else c # ReplaceAll cs old new)"
  by pat_completeness auto
termination
  by (relation "measure (\<lambda>(s, old, new). length s)") auto


text \<open>
  A value of Go's \<open>any\<close> as it occurs in a configuration body: only the dynamic type
  \<open>string\<close> passes the type assertion \<open>v.(string)\<close>.
\<close>

datatype any =
    AString string
  | ABool bool
  | ANumber int
  | ANil
  | AList "any list"
  | AMap "(string \<times> any) list"

text \<open>
  \<open>type ProviderConfiguration map[string]any\<close>. A Go map is ranged over in an order the
  language leaves open, and each entry is visited once; the model is the list of entries
  in the order in which a \<open>range\<close> visits them, so that a statement about every list is a
  statement about every order.
\<close>

type_synonym ProviderConfiguration = "(string \<times> any) list"

record ProviderRequirement =
  Source :: string
  Version :: string

record Setup =
  Version :: string
  Requirement :: ProviderRequirement
  Configuration :: ProviderConfiguration
  Env :: "string list"

definition REDACTED :: string where
  "REDACTED = ''REDACTED''"

text \<open>The body of \<open>for _, v := range ts.Configuration\<close>, one entry at a time.\<close>

fun filterRange :: "ProviderConfiguration \<Rightarrow> string \<Rightarrow> string" where
  "filterRange [] s = s"
| "filterRange ((k, v) # rest) s =
     (case v of
        AString str \<Rightarrow>
          (if str \<noteq> [] then filterRange rest (ReplaceAll s str REDACTED)
           else filterRange rest s)
      | _ \<Rightarrow> filterRange rest s)"

definition filterSensitiveInformation :: "Setup \<Rightarrow> string \<Rightarrow> string" where
  "filterSensitiveInformation ts s = filterRange (Configuration ts) s"






section \<open>The workspace store (pkg/terraform/store.go)\<close>

type_synonym UID = string
type_synonym path = string

text \<open>
  The file system behind \<open>afero.Afero\<close>, as far as the store names it: what lies at a
  path. Parent directories are not tracked.
\<close>

datatype node = DirNode | FileNode string

type_synonym Fs = "path \<Rightarrow> node option"

text \<open>
  Modelled from the spec: the \<open>Workspace\<close> struct and \<open>NewWorkspace\<close> are declared outside
  the sources at hand. The spec gives a Workspace a directory path, an environment
  variable list and a redaction function bound at creation time (next to references to
  a logger and an executor, which carry no data of their own here).
\<close>

record Workspace =
  dir :: path
  env :: "string list"
  filterFn :: "string \<Rightarrow> string"

definition NewWorkspace :: "path \<Rightarrow> (string \<Rightarrow> string) \<Rightarrow> Workspace" where
  "NewWorkspace d f = \<lparr>dir = d, env = [], filterFn = f\<rparr>"

text \<open>
  Every effect a call of the store performs, in program order. The mutex operations and
  the accesses to the map are events too, so that the scope of the lock can be read off
  a trace.
\<close>

datatype event =
    MuLock
  | MuUnlock
  | MapLookup UID
  | MapInsert UID
  | MapDelete UID
  | FsMkdirAll path
  | FsStat path
  | FsWriteFile path
  | FsRemoveAll path
  | FileProducerNew path
  | ProviderRunnerStart
  | ExecTerraformInit path
  | LogDebug string

text \<open>
  The \<open>WorkspaceStore\<close> struct with the parts of the world its methods act on:
  \<^item> \<open>store\<close>: \<open>map[types.UID]*Workspace\<close>; a pointer is an address into \<open>heap\<close>, and two
    pointers are the same instance exactly when the addresses are equal;
  \<^item> \<open>heap\<close>: the Workspace objects allocated so far, the address being the index;
  \<^item> \<open>mu\<close>: whether the mutex is held;
  \<^item> \<open>fs\<close>: the state of the file system behind the \<open>afero.Afero\<close> handle;
  \<^item> \<open>tempDir\<close>: what \<open>ws.fs.GetTempDir("")\<close> answers;
  \<^item> \<open>trace\<close>: the events performed so far, oldest first.
\<close>

record WorkspaceStore =
  store :: "UID \<Rightarrow> nat option"
  heap :: "Workspace list"
  mu :: bool
  fs :: Fs
  tempDir :: path
  trace :: "event list"

definition NewWorkspaceStore :: "Fs \<Rightarrow> path \<Rightarrow> WorkspaceStore" where
  "NewWorkspaceStore f tmp =
     \<lparr>store = Map.empty, heap = [], mu = False, fs = f, tempDir = tmp, trace = []\<rparr>"

text \<open>
  What the collaborators answer during one call of \<open>Workspace\<close>: a fault of a file-system
  operation is the message of an error other than "not exist"; \<open>NewFileProducer\<close>, the
  provider runner and the command answer with any error.
\<close>

record effects =
  mkdirFault :: "string option"
  producerErr :: "error option"
  statStateFault :: "string option"
  writeStateFault :: "string option"
  stateContent :: string
  writeMainFault :: "string option"
  mainContent :: string
  runnerStart :: "error + string"
  statLockFault :: "string option"
  initOut :: string
  initErr :: "error option"
  initFs :: "Fs \<Rightarrow> Fs"

definition emit :: "event \<Rightarrow> WorkspaceStore \<Rightarrow> WorkspaceStore" where
  "emit e ws = ws\<lparr>trace := trace ws @ [e]\<rparr>"

definition Lock :: "WorkspaceStore \<Rightarrow> WorkspaceStore" where
  "Lock ws = emit MuLock (ws\<lparr>mu := True\<rparr>)"

definition Unlock :: "WorkspaceStore \<Rightarrow> WorkspaceStore" where
  "Unlock ws = emit MuUnlock (ws\<lparr>mu := False\<rparr>)"

text \<open>
  \<open>filepath.Join\<close> of two elements, for a clean first element and a second element
  without separators (the second is a UID or a fixed file name).
\<close>

definition Join :: "path \<Rightarrow> string \<Rightarrow> path" where
  "Join a b = a @ ''/'' @ b"

text \<open>
  \<open>MkdirAll\<close> as the \<open>os\<close> package documents it: "If path is already a directory, MkdirAll
  does nothing and returns nil"; a file in the way is an error; otherwise the directory
  is made unless the operation fails.
\<close>

definition MkdirAll :: "WorkspaceStore \<Rightarrow> path \<Rightarrow> string option \<Rightarrow> error option \<times> WorkspaceStore" where
  "MkdirAll ws p fault =
     (let ws' = emit (FsMkdirAll p) ws in
      case fs ws p of
        Some DirNode \<Rightarrow> (None, ws')
      | Some (FileNode c) \<Rightarrow> (Some (ErrorString ''not a directory''), ws')
      | None \<Rightarrow>
          (case fault of
             Some m \<Rightarrow> (Some (ErrorString m), ws')
           | None \<Rightarrow> (None, ws'\<lparr>fs := (fs ws)(p \<mapsto> DirNode)\<rparr>)))"

text \<open>\<open>Stat\<close>: only the error is used by the store.\<close>

definition Stat :: "WorkspaceStore \<Rightarrow> path \<Rightarrow> string option \<Rightarrow> error option \<times> WorkspaceStore" where
  "Stat ws p fault =
     (let ws' = emit (FsStat p) ws in
      case fault of
        Some m \<Rightarrow> (Some (ErrorString m), ws')
      | None \<Rightarrow> (if fs ws p = None then (Some ErrNotExist, ws') else (None, ws')))"

definition WriteFile :: "WorkspaceStore \<Rightarrow> path \<Rightarrow> string \<Rightarrow> string option \<Rightarrow> error option \<times> WorkspaceStore" where
  "WriteFile ws p content fault =
     (let ws' = emit (FsWriteFile p) ws in
      case fault of
        Some m \<Rightarrow> (Some (ErrorString m), ws')
      | None \<Rightarrow> (None, ws'\<lparr>fs := (fs ws)(p \<mapsto> FileNode content)\<rparr>))"

text \<open>
  \<open>RemoveAll\<close>: removes the path and everything below it; a path that does not exist is
  no error. A failing removal is modelled as leaving the tree as it was.
\<close>

definition RemoveAll :: "WorkspaceStore \<Rightarrow> path \<Rightarrow> string option \<Rightarrow> error option \<times> WorkspaceStore" where
  "RemoveAll ws p fault =
     (let ws' = emit (FsRemoveAll p) ws in
      case fault of
        Some m \<Rightarrow> (Some (ErrorString m), ws')
      | None \<Rightarrow>
          (None, ws'\<lparr>fs := (\<lambda>q. if q = p \<or> prefix (p @ ''/'') q then None else fs ws q)\<rparr>))"

text \<open>\<open>os.IsNotExist\<close> and \<open>xpresource.Ignore\<close> of crossplane-runtime.\<close>

fun IsNotExist :: "error option \<Rightarrow> bool" where
  "IsNotExist (Some ErrNotExist) = True"
| "IsNotExist err = False"

definition Ignore :: "(error option \<Rightarrow> bool) \<Rightarrow> error option \<Rightarrow> error option" where
  "Ignore is err = (if is err then None else err)"

text \<open>
  Modelled from the spec: the File Producer is declared outside the sources at hand. It
  "builds the on-disk artifacts (main configuration file, reconstructed state file)" in
  the directory it was made for: \<open>NewFileProducer\<close> answers a producer for \<open>Dir\<close> or an
  error, \<open>WriteTFState\<close> writes \<open>terraform.tfstate\<close> there, and \<open>WriteMainTF\<close> writes the
  main configuration file (\<open>main.tf.json\<close>) there.
\<close>

record FileProducer =
  Dir :: path

definition NewFileProducer :: "WorkspaceStore \<Rightarrow> path \<Rightarrow> error option \<Rightarrow> (FileProducer \<times> error option) \<times> WorkspaceStore" where
  "NewFileProducer ws d err = ((\<lparr>Dir = d\<rparr>, err), emit (FileProducerNew d) ws)"

definition WriteTFState :: "WorkspaceStore \<Rightarrow> FileProducer \<Rightarrow> string \<Rightarrow> string option \<Rightarrow> error option \<times> WorkspaceStore" where
  "WriteTFState ws fp content fault = WriteFile ws (Join (Dir fp) ''terraform.tfstate'') content fault"

definition WriteMainTF :: "WorkspaceStore \<Rightarrow> FileProducer \<Rightarrow> string \<Rightarrow> string option \<Rightarrow> error option \<times> WorkspaceStore" where
  "WriteMainTF ws fp content fault = WriteFile ws (Join (Dir fp) ''main.tf.json'') content fault"


text \<open>
  \<open>ws.providerRunner.Start()\<close> answers the attachment configuration or an error; the
  command \<open>terraform init -input=false\<close>, run in the directory set by \<open>cmd.SetDir\<close>,
  answers its combined output and an error, and may change the file system.
\<close>

definition ProviderRunner_Start :: "WorkspaceStore \<Rightarrow> error + string \<Rightarrow> (error + string) \<times> WorkspaceStore" where
  "ProviderRunner_Start ws r = (r, emit ProviderRunnerStart ws)"

definition CombinedOutput_init ::
  "WorkspaceStore \<Rightarrow> path \<Rightarrow> string \<Rightarrow> error option \<Rightarrow> (Fs \<Rightarrow> Fs) \<Rightarrow> (string \<times> error option) \<times> WorkspaceStore" where
  "CombinedOutput_init ws d out err f =
     ((out, err), (emit (ExecTerraformInit d) ws)\<lparr>fs := f (fs ws)\<rparr>)"

text \<open>
  Reading and writing through a \<open>*Workspace\<close>. Go pointers do not dangle and the map
  holds no nil pointer, so an address taken from \<open>store\<close> lies inside \<open>heap\<close>
  (\<open>wf\<close> below); outside that range the model's read is meaningless.
\<close>

definition deref :: "WorkspaceStore \<Rightarrow> nat \<Rightarrow> Workspace" where
  "deref ws a = heap ws ! a"

definition set_env :: "WorkspaceStore \<Rightarrow> nat \<Rightarrow> string list \<Rightarrow> WorkspaceStore" where
  "set_env ws a e = ws\<lparr>heap := (heap ws)[a := (deref ws a)\<lparr>env := e\<rparr>]\<rparr>"

definition wf :: "WorkspaceStore \<Rightarrow> bool" where
  "wf ws = (\<forall>u a. store ws u = Some a \<longrightarrow> a < length (heap ws))"

text \<open>\<open>fmt.Sprintf(fmtEnv, k, v)\<close> with \<open>fmtEnv = "%s=%s"\<close>.\<close>

definition Sprintf_fmtEnv :: "string \<Rightarrow> string \<Rightarrow> string" where
  "Sprintf_fmtEnv k v = k @ ''='' @ v"

text \<open>
  \<open>func (ws *WorkspaceStore) Workspace(ctx, c, tr, ts, cfg) (*Workspace, error)\<close>.
  \<open>uid\<close> is \<open>tr.GetUID()\<close>. The constant \<open>envReattachConfig\<close> is declared outside the
  sources at hand and is a parameter. The result is the pair the Go function returns,
  \<open>None\<close> standing for nil in either place, with the state after the call.
\<close>

definition WorkspaceStore_Workspace ::
  "WorkspaceStore \<Rightarrow> UID \<Rightarrow> Setup \<Rightarrow> string \<Rightarrow> effects
     \<Rightarrow> (nat option \<times> error option) \<times> WorkspaceStore" where
  "WorkspaceStore_Workspace ws0 uid ts envReattachConfig fx =
     (let d = Join (tempDir ws0) uid;
          (err1, ws1) = MkdirAll ws0 d (mkdirFault fx)
      in if err1 \<noteq> None
         then ((None, Wrap err1 ''cannot create directory for workspace''), ws1)
      else
      let ((fp, err2), ws2) = NewFileProducer ws1 d (producerErr fx)
      in if err2 \<noteq> None
         then ((None, Wrap err2 ''cannot create a new file producer''), ws2)
      else
      let (err3, ws3) = Stat ws2 (Join (Dir fp) ''terraform.tfstate'') (statStateFault fx)
      in if Ignore IsNotExist err3 \<noteq> None
         then ((None, Wrap err3 ''cannot stat terraform.tfstate file''), ws3)
      else
      let (err4, ws4) =
            (if IsNotExist err3
             then WriteTFState ws3 fp (stateContent fx) (writeStateFault fx)
             else (None, ws3))
      in if err4 \<noteq> None
         then ((None, Wrap err4 ''cannot reproduce tfstate file''), ws4)
      else
      let (err5, ws5) = WriteMainTF ws4 fp (mainContent fx) (writeMainFault fx)
      in if err5 \<noteq> None
         then ((None, Wrap err5 ''cannot write main tf file''), ws5)
      else
      case ProviderRunner_Start ws5 (runnerStart fx) of
        (Inl err6, ws6) \<Rightarrow> ((None, Some err6), ws6)
      | (Inr attachmentConfig, ws6) \<Rightarrow>
      let ws7 = emit (MapLookup uid) (Lock ws6);
          (w, ws8) =
            (case store ws7 uid of
               None \<Rightarrow>
                 (let a = length (heap ws7);
                      ws' = emit (MapInsert uid)
                              (ws7\<lparr>heap := heap ws7 @ [NewWorkspace d (filterSensitiveInformation ts)],
                                   store := (store ws7)(uid \<mapsto> a)\<rparr>)
                  in (a, emit (MapLookup uid) ws'))
             | Some a \<Rightarrow> (a, ws7));
          ws9 = Unlock ws8;
          (err7, ws10) = Stat ws9 (Join d ''.terraform.lock.hcl'') (statLockFault fx)
      in if Ignore IsNotExist err7 \<noteq> None
         then ((None, Wrap err7 ''cannot stat init lock file''), ws10)
      else
      let ws11 = set_env ws10 w (Env ts);
          ws12 = set_env ws11 w (env (deref ws11 w) @ [Sprintf_fmtEnv envReattachConfig attachmentConfig])
      in if \<not> IsNotExist err7
         then ((Some w, None), ws12)
      else
      let ((out, err8), ws13) =
            CombinedOutput_init ws12 (dir (deref ws12 w)) (initOut fx) (initErr fx) (initFs fx);
          ws14 = emit (LogDebug out) ws13
      in ((Some w, Wrap err8 (''cannot init workspace: '' @ out)), ws14))"

text \<open>
  \<open>func (ws *WorkspaceStore) Remove(obj xpresource.Object) error\<close>, \<open>uid\<close> being
  \<open>obj.GetUID()\<close>. The deferred \<open>Unlock\<close> runs at each return.
\<close>

definition WorkspaceStore_Remove ::
  "WorkspaceStore \<Rightarrow> UID \<Rightarrow> string option \<Rightarrow> error option \<times> WorkspaceStore" where
  "WorkspaceStore_Remove ws0 uid removeFault =
     (let ws1 = emit (MapLookup uid) (Lock ws0) in
      case store ws1 uid of
        None \<Rightarrow> (None, Unlock ws1)
      | Some w \<Rightarrow>
          (let (err, ws2) = RemoveAll ws1 (dir (deref ws1 w)) removeFault
           in if err \<noteq> None
              then (Wrap err ''cannot remove workspace folder'', Unlock ws2)
              else (None, Unlock (emit (MapDelete uid) (ws2\<lparr>store := (store ws2)(uid := None)\<rparr>)))))"

text \<open>The events a call added to the trace.\<close>

definition events_of :: "WorkspaceStore \<Rightarrow> WorkspaceStore \<Rightarrow> event list" where
  "events_of ws ws' = drop (length (trace ws)) (trace ws')"

text \<open>Which events are file-system or process I/O, and which are accesses to the map.\<close>

fun is_io :: "event \<Rightarrow> bool" where
  "is_io (FsMkdirAll p) = True"
| "is_io (FsStat p) = True"
| "is_io (FsWriteFile p) = True"
| "is_io (FsRemoveAll p) = True"
| "is_io (FileProducerNew p) = True"
| "is_io ProviderRunnerStart = True"
| "is_io (ExecTerraformInit p) = True"
| "is_io e = False"





subsection \<open>The three stretches of \<open>Workspace\<close>\<close>

text \<open>
  The body of \<open>Workspace\<close> cut at the two ends of its critical section, for reasoning one
  stretch at a time: everything before \<open>ws.mu.Lock()\<close>, the critical section, and
  everything after \<open>ws.mu.Unlock()\<close>. The lemma \<open>Workspace_stretches\<close> shows that the
  three in sequence are \<open>WorkspaceStore_Workspace\<close>.
\<close>

definition prepare :: "WorkspaceStore \<Rightarrow> path \<Rightarrow> effects \<Rightarrow> (error option + string) \<times> WorkspaceStore" where
  "prepare ws0 d fx =
     (let (err1, ws1) = MkdirAll ws0 d (mkdirFault fx)
      in if err1 \<noteq> None
         then (Inl (Wrap err1 ''cannot create directory for workspace''), ws1)
      else
      let ((fp, err2), ws2) = NewFileProducer ws1 d (producerErr fx)
      in if err2 \<noteq> None
         then (Inl (Wrap err2 ''cannot create a new file producer''), ws2)
      else
      let (err3, ws3) = Stat ws2 (Join (Dir fp) ''terraform.tfstate'') (statStateFault fx)
      in if Ignore IsNotExist err3 \<noteq> None
         then (Inl (Wrap err3 ''cannot stat terraform.tfstate file''), ws3)
      else
      let (err4, ws4) =
            (if IsNotExist err3
             then WriteTFState ws3 fp (stateContent fx) (writeStateFault fx)
             else (None, ws3))
      in if err4 \<noteq> None
         then (Inl (Wrap err4 ''cannot reproduce tfstate file''), ws4)
      else
      let (err5, ws5) = WriteMainTF ws4 fp (mainContent fx) (writeMainFault fx)
      in if err5 \<noteq> None
         then (Inl (Wrap err5 ''cannot write main tf file''), ws5)
      else
      case ProviderRunner_Start ws5 (runnerStart fx) of
        (Inl err6, ws6) \<Rightarrow> (Inl (Some err6), ws6)
      | (Inr attachmentConfig, ws6) \<Rightarrow> (Inr attachmentConfig, ws6))"

definition register :: "WorkspaceStore \<Rightarrow> UID \<Rightarrow> path \<Rightarrow> Setup \<Rightarrow> nat \<times> WorkspaceStore" where
  "register ws6 uid d ts =
     (let ws7 = emit (MapLookup uid) (Lock ws6);
          (w, ws8) =
            (case store ws7 uid of
               None \<Rightarrow>
                 (let a = length (heap ws7);
                      ws' = emit (MapInsert uid)
                              (ws7\<lparr>heap := heap ws7 @ [NewWorkspace d (filterSensitiveInformation ts)],
                                   store := (store ws7)(uid \<mapsto> a)\<rparr>)
                  in (a, emit (MapLookup uid) ws'))
             | Some a \<Rightarrow> (a, ws7))
      in (w, Unlock ws8))"

definition initialise ::
  "WorkspaceStore \<Rightarrow> nat \<Rightarrow> path \<Rightarrow> Setup \<Rightarrow> string \<Rightarrow> string \<Rightarrow> effects
     \<Rightarrow> (nat option \<times> error option) \<times> WorkspaceStore" where
  "initialise ws9 w d ts envReattachConfig attachmentConfig fx =
     (let (err7, ws10) = Stat ws9 (Join d ''.terraform.lock.hcl'') (statLockFault fx)
      in if Ignore IsNotExist err7 \<noteq> None
         then ((None, Wrap err7 ''cannot stat init lock file''), ws10)
      else
      let ws11 = set_env ws10 w (Env ts);
          ws12 = set_env ws11 w (env (deref ws11 w) @ [Sprintf_fmtEnv envReattachConfig attachmentConfig])
      in if \<not> IsNotExist err7
         then ((Some w, None), ws12)
      else
      let ((out, err8), ws13) =
            CombinedOutput_init ws12 (dir (deref ws12 w)) (initOut fx) (initErr fx) (initFs fx);
          ws14 = emit (LogDebug out) ws13
      in ((Some w, Wrap err8 (''cannot init workspace: '' @ out)), ws14))"

definition lockfree :: "event list \<Rightarrow> bool" where
  "lockfree evs = (MuLock \<notin> set evs \<and> MuUnlock \<notin> set evs)"

text \<open>
  The inputs on which a call of \<open>Workspace\<close> gets as far as the critical section: the
  directory is there or can be made, and none of the steps before the lock fails.
\<close>

definition reaches_registry :: "WorkspaceStore \<Rightarrow> UID \<Rightarrow> effects \<Rightarrow> bool" where
  "reaches_registry ws uid fx =
     (let d = Join (tempDir ws) uid in
      (fs ws d = Some DirNode \<or> (fs ws d = None \<and> mkdirFault fx = None))
      \<and> producerErr fx = None
      \<and> statStateFault fx = None
      \<and> (fs ws (Join d ''terraform.tfstate'') = None \<longrightarrow> writeStateFault fx = None)
      \<and> writeMainFault fx = None
      \<and> (case runnerStart fx of Inl e \<Rightarrow> False | Inr a \<Rightarrow> True))"

subsection \<open>Sequences of calls\<close>

datatype call = Get UID Setup effects | Remove UID "string option"

fun step :: "string \<Rightarrow> WorkspaceStore \<Rightarrow> call \<Rightarrow> WorkspaceStore" where
  "step k ws (Get uid ts fx) = snd (WorkspaceStore_Workspace ws uid ts k fx)"
| "step k ws (Remove uid fault) = snd (WorkspaceStore_Remove ws uid fault)"

fun run :: "string \<Rightarrow> WorkspaceStore \<Rightarrow> call list \<Rightarrow> WorkspaceStore" where
  "run k ws [] = ws"
| "run k ws (c # cs) = run k (step k ws c) cs"

text \<open>A call that erases the entry of \<open>uid\<close>: a \<open>Remove\<close> of it whose deletion does not fail.\<close>

fun erases :: "UID \<Rightarrow> call \<Rightarrow> bool" where
  "erases uid (Remove u fault) = (u = uid \<and> fault = None)"
| "erases uid c = False"

subsection \<open>Concrete inputs\<close>

definition demoSetup :: Setup where
  "demoSetup = \<lparr>Version = ''1.2.1'',
      Requirement = \<lparr>Source = ''hashicorp/aws'', Version = ''4.0''\<rparr>,
      Configuration = [(''region'', AString ''us-1''), (''retries'', ANumber 3),
                       (''token'', AString ''hunter2''), (''profile'', AString [])],
      Env = [''A=b'']\<rparr>"




definition quiet :: effects where
  "quiet = \<lparr>mkdirFault = None, producerErr = None, statStateFault = None,
     writeStateFault = None, stateContent = ''{}'', writeMainFault = None,
     mainContent = ''{}'', runnerStart = Inr ''cfg1'', statLockFault = None,
     initOut = ''ok'', initErr = None, initFs = (\<lambda>f. f)\<rparr>"

definition initFails :: effects where
  "initFails = quiet\<lparr>initOut := ''boom'', initErr := Some (ErrorString ''exit status 1'')\<rparr>"

definition fresh :: WorkspaceStore where
  "fresh = NewWorkspaceStore Map.empty ''/tmp''"

definition afterFailedInit :: WorkspaceStore where
  "afterFailedInit = snd (WorkspaceStore_Workspace fresh ''abc-123'' demoSetup ''TF_REATTACH'' initFails)"

definition afterSecondGet :: WorkspaceStore where
  "afterSecondGet = snd (WorkspaceStore_Workspace afterFailedInit ''abc-123'' demoSetup ''TF_REATTACH'' quiet)"

section \<open>Properties\<close>

subsection \<open>Classification of errors\<close>

lemma As_chain_Pipeline_Cause:
  "As_chain_PipelineInProgressError e = (case Cause e of PipelineInProgress x \<Rightarrow> Some x | _ \<Rightarrow> None)"
  by (induction e) auto

text \<open>
  Claim C3. \<open>IsPipelineInProgress\<close> answers true exactly for an error whose chain ends in a
  pipeline-in-progress error, and then answers the state that error carries; for every
  other error and for nil it answers \<open>("invalid", false)\<close>. It is a total function of
  its argument: no input makes it panic. Each of the three pipeline states, wrapped by
  \<open>NewPipelineInProgressError\<close> and classified, comes back unchanged with true.
\<close>

theorem IsPipelineInProgress_classifies:
  "(snd (IsPipelineInProgress err) \<longleftrightarrow> (\<exists>e x. err = Some e \<and> Cause e = PipelineInProgress x))
   \<and> (\<forall>e x. err = Some e \<and> Cause e = PipelineInProgress x
          \<longrightarrow> IsPipelineInProgress err = (pipelineState x, True))
   \<and> (\<not> snd (IsPipelineInProgress err) \<longrightarrow> IsPipelineInProgress err = (''invalid'', False))
   \<and> IsPipelineInProgress None = (''invalid'', False)
   \<and> (\<forall>state. IsPipelineInProgress (NewPipelineInProgressError state) = (state, True))
   \<and> IsPipelineInProgress (NewPipelineInProgressError PipelineNotStarted) = (PipelineNotStarted, True)
   \<and> IsPipelineInProgress (NewPipelineInProgressError PipelineStateLocked) = (PipelineStateLocked, True)
   \<and> IsPipelineInProgress (NewPipelineInProgressError PipelineStateNoStore) = (PipelineStateNoStore, True)"
proof -
  have rt: "IsPipelineInProgress (NewPipelineInProgressError state) = (state, True)" for state
    by (simp add: IsPipelineInProgress_def NewPipelineInProgressError_def)
  have nil: "IsPipelineInProgress None = (''invalid'', False)"
    by (simp add: IsPipelineInProgress_def)
  have a: "snd (IsPipelineInProgress err) \<longleftrightarrow> (\<exists>e x. err = Some e \<and> Cause e = PipelineInProgress x)"
    by (cases err) (auto simp: IsPipelineInProgress_def As_chain_Pipeline_Cause split: error.splits option.splits)
  have b: "IsPipelineInProgress err = (pipelineState x, True)"
    if "err = Some e" "Cause e = PipelineInProgress x" for e x
    using that by (simp add: IsPipelineInProgress_def As_chain_Pipeline_Cause)
  have c: "\<not> snd (IsPipelineInProgress err) \<Longrightarrow> IsPipelineInProgress err = (''invalid'', False)"
    by (auto simp: IsPipelineInProgress_def split: option.splits)
  show ?thesis using rt nil a b c by blast
qed

theorem IsPipelineInProgress_classifies_witness:
  "IsPipelineInProgress (Some (WithMessage (PipelineInProgress \<lparr>pipelineState = PipelineStateLocked\<rparr>) ''cannot fetch''))
     = (PipelineStateLocked, True)
   \<and> \<not> snd (IsPipelineInProgress (Some (ErrorString ''exit status 1'')))
   \<and> IsPipelineInProgress (Some (ErrorString ''exit status 1'')) = (''invalid'', False)"
  using IsPipelineInProgress_classifies [of "Some (WithMessage (PipelineInProgress \<lparr>pipelineState = PipelineStateLocked\<rparr>) ''cannot fetch'')"]
        IsPipelineInProgress_classifies [of "Some (ErrorString ''exit status 1'')"]
  by simp

text \<open>
  Claim C4 as stated fails: under \<open>errors.Is\<close> an operation-in-progress error for apply
  matches one for destroy, because the \<open>Is\<close> method only asserts the type of its argument.
\<close>

theorem Is_ignores_kind_counterexample:
  "errors_Is (NewOperationInProgressError OperationApply) (NewOperationInProgressError OperationDestroy)
   \<and> OperationInProgressError_Is \<lparr>op = OperationApply\<rparr> (NewOperationInProgressError OperationDestroy)"
  by (simp add: NewOperationInProgressError_def)

text \<open>
  Claim C4, as amended. An operation-in-progress error built for apply satisfies
  \<open>IsApplying\<close> and not \<open>IsDestroying\<close>; under the \<open>Is\<close> relation it matches an
  operation-in-progress error of every kind; the kind is told apart by
  \<open>IsOperationInProgress\<close>, which compares the kind carried in the value, also through a
  wrapper, and never answers true for an error that only carries a message.
\<close>

theorem operation_classification_by_kind:
  "IsApplying (NewOperationInProgressError OperationApply)
   \<and> \<not> IsDestroying (NewOperationInProgressError OperationApply)
   \<and> (\<forall>k. errors_Is (NewOperationInProgressError OperationApply) (NewOperationInProgressError k))
   \<and> (\<forall>k k'. IsOperationInProgress (NewOperationInProgressError k) k' \<longleftrightarrow> k' = k)
   \<and> (\<forall>k k' m. IsOperationInProgress (Wrap (NewOperationInProgressError k) m) k' \<longleftrightarrow> k' = k)
   \<and> (\<forall>m k. \<not> IsOperationInProgress (Some (ErrorString m)) k)"
  by (simp add: IsApplying_def IsDestroying_def IsOperationInProgress_def
      NewOperationInProgressError_def GetOperation_def)


subsection \<open>Redaction\<close>


























subsection \<open>The stretches of \<open>Workspace\<close>, one at a time\<close>

lemmas prim_defs = MkdirAll_def Stat_def WriteFile_def RemoveAll_def NewFileProducer_def
  WriteTFState_def WriteMainTF_def ProviderRunner_Start_def CombinedOutput_init_def
  emit_def Lock_def Unlock_def set_env_def deref_def Ignore_def NewWorkspace_def


lemma Workspace_stretches:
  "WorkspaceStore_Workspace ws uid ts k fx =
     (case prepare ws (Join (tempDir ws) uid) fx of
        (Inl err, ws1) \<Rightarrow> ((None, err), ws1)
      | (Inr att, ws1) \<Rightarrow>
          (case register ws1 uid (Join (tempDir ws) uid) ts of
             (w, ws2) \<Rightarrow> initialise ws2 w (Join (tempDir ws) uid) ts k att fx))"
  unfolding WorkspaceStore_Workspace_def prepare_def register_def initialise_def
  by (simp add: Let_def split: prod.splits sum.splits option.splits)



lemma prepare_frame:
  "prepare ws d fx = (res, ws1) \<Longrightarrow>
     store ws1 = store ws \<and> heap ws1 = heap ws \<and> mu ws1 = mu ws \<and> tempDir ws1 = tempDir ws"
  by (auto simp: prepare_def prim_defs Let_def split: prod.splits option.splits sum.splits if_splits node.splits)


lemmas split_all = prod.splits option.splits sum.splits if_splits node.splits

lemma prepare_trace:
  "prepare ws d fx = (res, ws1) \<Longrightarrow>
     trace ws1 = trace ws @ events_of ws ws1 \<and> lockfree (events_of ws ws1)
     \<and> (\<forall>e \<in> set (events_of ws ws1). is_io e)"
  by (auto simp: prepare_def prim_defs Let_def events_of_def lockfree_def split: split_all)

lemma prepare_state_file:
  "prepare ws d fx = (res, ws1) \<Longrightarrow> fs ws (Join d ''terraform.tfstate'') \<noteq> None \<Longrightarrow>
     FsWriteFile (Join d ''terraform.tfstate'') \<notin> set (events_of ws ws1)
     \<and> fs ws1 (Join d ''terraform.tfstate'') = fs ws (Join d ''terraform.tfstate'')"
  by (auto simp: prepare_def prim_defs Let_def events_of_def Join_def split: split_all)

lemma prepare_existing_dir:
  "prepare ws d fx = (res, ws1) \<Longrightarrow> fs ws d = Some DirNode \<Longrightarrow>
     FileProducerNew d \<in> set (events_of ws ws1)"
  by (auto simp: prepare_def prim_defs Let_def events_of_def split: split_all)

lemma prepare_ok:
  "prepare ws d fx = (Inr att, ws1) \<Longrightarrow>
     runnerStart fx = Inr att \<and> fs ws1 d = Some DirNode
     \<and> fs ws1 (Join d ''.terraform.lock.hcl'') = fs ws (Join d ''.terraform.lock.hcl'')"
  by (auto simp: prepare_def prim_defs Let_def Join_def split: split_all)


lemma register_present:
  "register ws uid d ts = (w, ws2) \<Longrightarrow> store ws uid = Some a \<Longrightarrow>
     w = a \<and> store ws2 = store ws \<and> heap ws2 = heap ws
     \<and> events_of ws ws2 = [MuLock, MapLookup uid, MuUnlock]"
  by (auto simp: register_def prim_defs Let_def events_of_def split: split_all)

lemma register_absent:
  "register ws uid d ts = (w, ws2) \<Longrightarrow> store ws uid = None \<Longrightarrow>
     w = length (heap ws) \<and> store ws2 = (store ws)(uid \<mapsto> w)
     \<and> heap ws2 = heap ws @ [NewWorkspace d (filterSensitiveInformation ts)]
     \<and> events_of ws ws2 = [MuLock, MapLookup uid, MapInsert uid, MapLookup uid, MuUnlock]"
  by (auto simp: register_def prim_defs Let_def events_of_def split: split_all)

lemma register_frame:
  "register ws uid d ts = (w, ws2) \<Longrightarrow>
     trace ws2 = trace ws @ events_of ws ws2 \<and> fs ws2 = fs ws \<and> tempDir ws2 = tempDir ws
     \<and> mu ws2 = False \<and> store ws2 uid = Some w \<and> take (length (heap ws)) (heap ws2) = heap ws"
  by (auto simp: register_def prim_defs Let_def events_of_def split: split_all)

lemma register_wf:
  "register ws uid d ts = (w, ws2) \<Longrightarrow> wf ws \<Longrightarrow> wf ws2 \<and> w < length (heap ws2)"
  by (auto simp: register_def prim_defs Let_def wf_def less_Suc_eq split: split_all)

lemma initialise_frame:
  "initialise ws w d ts k att fx = (r, ws3) \<Longrightarrow>
     store ws3 = store ws \<and> length (heap ws3) = length (heap ws) \<and> mu ws3 = mu ws
     \<and> tempDir ws3 = tempDir ws
     \<and> trace ws3 = trace ws @ events_of ws ws3 \<and> lockfree (events_of ws ws3)
     \<and> (\<forall>w'. fst r = Some w' \<longrightarrow> w' = w)"
  by (auto simp: initialise_def prim_defs Let_def events_of_def lockfree_def split: split_all)

lemma initialise_env:
  "initialise ws w d ts k att fx = ((Some w', e), ws3) \<Longrightarrow> w < length (heap ws) \<Longrightarrow>
     env (deref ws3 w) = Env ts @ [Sprintf_fmtEnv k att] \<and> dir (deref ws3 w) = dir (deref ws w)"
  by (auto simp: initialise_def prim_defs Let_def split: split_all)

lemma initialise_lock_present:
  "initialise ws w d ts k att fx = (r, ws3) \<Longrightarrow> statLockFault fx = None
     \<Longrightarrow> fs ws (Join d ''.terraform.lock.hcl'') \<noteq> None \<Longrightarrow>
     r = (Some w, None) \<and> fs ws3 = fs ws
     \<and> events_of ws ws3 = [FsStat (Join d ''.terraform.lock.hcl'')]"
  by (auto simp: initialise_def prim_defs Let_def events_of_def split: split_all)

lemma initialise_lock_absent:
  "initialise ws w d ts k att fx = (r, ws3) \<Longrightarrow> statLockFault fx = None
     \<Longrightarrow> fs ws (Join d ''.terraform.lock.hcl'') = None \<Longrightarrow> w < length (heap ws) \<Longrightarrow>
     r = (Some w, Wrap (initErr fx) (''cannot init workspace: '' @ initOut fx))
     \<and> fs ws3 = initFs fx (fs ws)
     \<and> events_of ws ws3 = [FsStat (Join d ''.terraform.lock.hcl''),
          ExecTerraformInit (dir (deref ws w)), LogDebug (initOut fx)]"
  by (auto simp: initialise_def prim_defs Let_def events_of_def split: split_all)

lemma initialise_fs:
  "initialise ws w d ts k att fx = (r, ws3) \<Longrightarrow>
     fs ws3 = fs ws \<or> fs ws3 = initFs fx (fs ws)"
  by (auto simp: initialise_def prim_defs Let_def split: split_all)

subsection \<open>Whole calls\<close>

lemma events_of_trans:
  assumes "trace b = trace a @ events_of a b" and "trace c = trace b @ events_of b c"
  shows "events_of a c = events_of a b @ events_of b c"
    and "trace c = trace a @ events_of a c"
proof -
  have "trace c = trace a @ (events_of a b @ events_of b c)"
    using assms by simp
  then show "events_of a c = events_of a b @ events_of b c"
    by (simp add: events_of_def[of a c])
  then show "trace c = trace a @ events_of a c"
    using assms by simp
qed

lemma Workspace_elim:
  assumes "WorkspaceStore_Workspace ws uid ts k fx = (res, ws')"
  obtains (early) err where
      "prepare ws (Join (tempDir ws) uid) fx = (Inl err, ws')" "res = (None, err)"
    | (late) att ws1 w ws2 where
      "prepare ws (Join (tempDir ws) uid) fx = (Inr att, ws1)"
      "register ws1 uid (Join (tempDir ws) uid) ts = (w, ws2)"
      "initialise ws2 w (Join (tempDir ws) uid) ts k att fx = (res, ws')"
  using assms unfolding Workspace_stretches
  by (auto split: prod.splits sum.splits)



lemma register_events:
  assumes "register ws uid d ts = (w, ws2)"
  shows "events_of ws ws2 = [MuLock, MapLookup uid, MuUnlock]
         \<or> events_of ws ws2 = [MuLock, MapLookup uid, MapInsert uid, MapLookup uid, MuUnlock]"
  using register_present[OF assms] register_absent[OF assms] by (cases "store ws uid") auto



lemma Remove_registered:
  assumes "store ws uid = Some w"
  shows "events_of ws (snd (WorkspaceStore_Remove ws uid fault))
           = [MuLock, MapLookup uid, FsRemoveAll (dir (deref ws w))]
             @ (if fault = None then [MapDelete uid] else []) @ [MuUnlock]"
    and "fault = Some m \<Longrightarrow>
           fst (WorkspaceStore_Remove ws uid fault)
             = Some (WithMessage (ErrorString m) ''cannot remove workspace folder'')
           \<and> store (snd (WorkspaceStore_Remove ws uid fault)) = store ws
           \<and> heap (snd (WorkspaceStore_Remove ws uid fault)) = heap ws"
    and "fault = None \<Longrightarrow>
           fst (WorkspaceStore_Remove ws uid fault) = None
           \<and> store (snd (WorkspaceStore_Remove ws uid fault)) = (store ws)(uid := None)
           \<and> heap (snd (WorkspaceStore_Remove ws uid fault)) = heap ws"
    and "mu (snd (WorkspaceStore_Remove ws uid fault)) = False"
  using assms
  by (auto simp: WorkspaceStore_Remove_def prim_defs Let_def events_of_def split: split_all)

lemma Remove_unregistered:
  assumes "store ws uid = None"
  shows "fst (WorkspaceStore_Remove ws uid fault) = None"
    and "store (snd (WorkspaceStore_Remove ws uid fault)) = store ws"
    and "heap (snd (WorkspaceStore_Remove ws uid fault)) = heap ws"
    and "fs (snd (WorkspaceStore_Remove ws uid fault)) = fs ws"
    and "events_of ws (snd (WorkspaceStore_Remove ws uid fault)) = [MuLock, MapLookup uid, MuUnlock]"
    and "mu (snd (WorkspaceStore_Remove ws uid fault)) = False"
  using assms
  by (auto simp: WorkspaceStore_Remove_def prim_defs Let_def events_of_def split: split_all)


lemma prepare_reaches:
  assumes "reaches_registry ws uid fx"
  shows "\<not> isl (fst (prepare ws (Join (tempDir ws) uid) fx))"
    and "fs ws (Join (Join (tempDir ws) uid) ''terraform.tfstate'') = None \<Longrightarrow>
           FsWriteFile (Join (Join (tempDir ws) uid) ''terraform.tfstate'')
             \<in> set (events_of ws (snd (prepare ws (Join (tempDir ws) uid) fx)))"
  using assms
  by (auto simp: reaches_registry_def prepare_def prim_defs Let_def events_of_def Join_def
           split: split_all)

lemma prepare_no_exec:
  "prepare ws d fx = (res, ws1) \<Longrightarrow> ExecTerraformInit p \<notin> set (events_of ws ws1)"
  by (auto simp: prepare_def prim_defs Let_def events_of_def split: split_all)

lemma initialise_no_write:
  "initialise ws w d ts k att fx = (r, ws3) \<Longrightarrow>
     FsWriteFile p \<notin> set (events_of ws ws3) \<and> FileProducerNew p \<notin> set (events_of ws ws3)"
  by (auto simp: initialise_def prim_defs Let_def events_of_def split: split_all)

lemma late_events:
  assumes "prepare ws d fx = (Inr att, ws1)"
    and "register ws1 uid d ts = (w, ws2)"
    and "initialise ws2 w d ts k att fx = (res, ws')"
  shows "events_of ws ws' = events_of ws ws1 @ events_of ws1 ws2 @ events_of ws2 ws'"
proof -
  have t1: "trace ws1 = trace ws @ events_of ws ws1" using prepare_trace[OF assms(1)] by simp
  have t2: "trace ws2 = trace ws1 @ events_of ws1 ws2" using register_frame[OF assms(2)] by simp
  have t3: "trace ws' = trace ws2 @ events_of ws2 ws'" using initialise_frame[OF assms(3)] by simp
  note a = events_of_trans[OF t1 t2]
  note b = events_of_trans[OF a(2) t3]
  show ?thesis using a(1) b(1) by simp
qed

lemma Workspace_wf:
  assumes "wf ws"
  shows "wf (snd (WorkspaceStore_Workspace ws uid ts k fx))"
proof -
  obtain res ws' where R: "WorkspaceStore_Workspace ws uid ts k fx = (res, ws')"
    by (cases "WorkspaceStore_Workspace ws uid ts k fx")
  from R have "wf ws'"
  proof (cases rule: Workspace_elim)
    case (early err)
    from prepare_frame[OF early(1)] assms show ?thesis by (simp add: wf_def)
  next
    case (late att ws1 w ws2)
    from prepare_frame[OF late(1)] assms have "wf ws1" by (simp add: wf_def)
    with register_wf[OF late(2)] have "wf ws2" by simp
    with initialise_frame[OF late(3)] show ?thesis by (simp add: wf_def)
  qed
  with R show ?thesis by simp
qed

lemma Workspace_registry:
  assumes "wf ws" and R: "WorkspaceStore_Workspace ws uid ts k fx = ((wo, eo), ws')"
  shows "store ws uid = Some a \<Longrightarrow>
           store ws' = store ws \<and> length (heap ws') = length (heap ws) \<and> (wo = None \<or> wo = Some a)"
    and "store ws uid = None \<Longrightarrow>
           (store ws' = store ws \<and> length (heap ws') = length (heap ws) \<and> wo = None)
           \<or> (store ws' = (store ws)(uid \<mapsto> length (heap ws))
               \<and> length (heap ws') = Suc (length (heap ws))
               \<and> (wo = None \<or> wo = Some (length (heap ws))))"
    and "wo = Some w \<Longrightarrow> store ws' uid = Some w \<and> w < length (heap ws')"
    and "store ws uid = None \<Longrightarrow> reaches_registry ws uid fx \<Longrightarrow>
           store ws' = (store ws)(uid \<mapsto> length (heap ws))
           \<and> length (heap ws') = Suc (length (heap ws))"
    and "tempDir ws' = tempDir ws"
proof -
  show "store ws' = store ws \<and> length (heap ws') = length (heap ws) \<and> (wo = None \<or> wo = Some a)"
    if "store ws uid = Some a"
    using R
  proof (cases rule: Workspace_elim)
    case (early err)
    from prepare_frame[OF early(1)] early(2) show ?thesis by simp
  next
    case (late att ws1 w' ws2)
    from prepare_frame[OF late(1)] that have s1: "store ws1 uid = Some a" by simp
    from register_present[OF late(2) s1] prepare_frame[OF late(1)] initialise_frame[OF late(3)]
    show ?thesis by (cases wo) auto
  qed
  show "(store ws' = store ws \<and> length (heap ws') = length (heap ws) \<and> wo = None)
           \<or> (store ws' = (store ws)(uid \<mapsto> length (heap ws))
               \<and> length (heap ws') = Suc (length (heap ws))
               \<and> (wo = None \<or> wo = Some (length (heap ws))))"
    if "store ws uid = None"
    using R
  proof (cases rule: Workspace_elim)
    case (early err)
    from prepare_frame[OF early(1)] early(2) show ?thesis by simp
  next
    case (late att ws1 w' ws2)
    from prepare_frame[OF late(1)] that have s1: "store ws1 uid = None" by simp
    from register_absent[OF late(2) s1] prepare_frame[OF late(1)] initialise_frame[OF late(3)]
    show ?thesis by (cases wo) auto
  qed
  show "store ws' uid = Some w \<and> w < length (heap ws')" if "wo = Some w"
    using R
  proof (cases rule: Workspace_elim)
    case (early err)
    with that show ?thesis by simp
  next
    case (late att ws1 w' ws2)
    from prepare_frame[OF late(1)] assms(1) have "wf ws1" by (simp add: wf_def)
    from register_wf[OF late(2) this] register_frame[OF late(2)] initialise_frame[OF late(3)] that
    show ?thesis by auto
  qed
  show "store ws' = (store ws)(uid \<mapsto> length (heap ws))
           \<and> length (heap ws') = Suc (length (heap ws))"
    if "store ws uid = None" "reaches_registry ws uid fx"
    using R
  proof (cases rule: Workspace_elim)
    case (early err)
    with prepare_reaches(1)[OF that(2)] show ?thesis by simp
  next
    case (late att ws1 w' ws2)
    from prepare_frame[OF late(1)] that have s1: "store ws1 uid = None" by simp
    from register_absent[OF late(2) s1] prepare_frame[OF late(1)] initialise_frame[OF late(3)]
    show ?thesis by auto
  qed
  show "tempDir ws' = tempDir ws"
    using R
  proof (cases rule: Workspace_elim)
    case (early err)
    from prepare_frame[OF early(1)] show ?thesis by simp
  next
    case (late att ws1 w' ws2)
    from prepare_frame[OF late(1)] register_frame[OF late(2)] initialise_frame[OF late(3)]
    show ?thesis by simp
  qed
qed


subsection \<open>The registry\<close>

lemma step_keeps_entry:
  assumes "wf ws" and "store ws u = Some a" and "\<not> erases u c"
  shows "store (step k ws c) u = Some a \<and> wf (step k ws c)"
proof (cases c)
  case (Get uid ts fx)
  obtain wo eo ws' where R: "WorkspaceStore_Workspace ws uid ts k fx = ((wo, eo), ws')"
    by (metis prod.exhaust)
  have w: "wf ws'" using Workspace_wf[OF assms(1), of uid ts k fx] R by simp
  have "store ws' u = Some a"
  proof (cases "store ws uid")
    case None
    then have "uid \<noteq> u" using assms(2) by auto
    with Workspace_registry(2)[OF assms(1) R None] assms(2) show ?thesis by auto
  next
    case (Some b)
    with Workspace_registry(1)[OF assms(1) R Some] assms(2) show ?thesis by simp
  qed
  with w R Get show ?thesis by simp
next
  case (Remove uid fault)
  show ?thesis
  proof (cases "store ws uid")
    case None
    from Remove_unregistered(2,3)[OF None, of fault] assms Remove show ?thesis
      by (simp add: wf_def)
  next
    case (Some b)
    show ?thesis
    proof (cases fault)
      case None
      with assms(3) Remove have "uid \<noteq> u" by simp
      with Remove_registered(3)[OF Some None] assms(1,2) Remove None show ?thesis
        by (simp add: wf_def)
    next
      case (Some m)
      with Remove_registered(2)[OF \<open>store ws uid = Some b\<close> Some] assms(1,2) Remove show ?thesis
        by (simp add: wf_def)
    qed
  qed
qed

lemma run_keeps_entry:
  "wf ws \<Longrightarrow> store ws u = Some a \<Longrightarrow> \<forall>c \<in> set cs. \<not> erases u c
     \<Longrightarrow> store (run k ws cs) u = Some a \<and> wf (run k ws cs)"
proof (induction cs arbitrary: ws)
  case Nil
  then show ?case by simp
next
  case (Cons c cs)
  from step_keeps_entry[OF Cons.prems(1,2), of c k] Cons.prems(3)
  have "store (step k ws c) u = Some a" "wf (step k ws c)" by simp_all
  from Cons.IH[OF this(2) this(1)] Cons.prems(3) show ?case by simp
qed

text \<open>
  Claim C2, as amended. A call of \<open>Workspace\<close> on a store in which the identity is
  registered constructs nothing, leaves the registry as it is and, when it returns a
  Workspace, returns the registered pointer. A call on a store in which the identity is
  absent either stops before the critical section, constructing nothing, or allocates
  exactly one Workspace at a fresh address and registers it; it does the latter whenever
  it reaches the critical section, also when it goes on to return an error. Whatever
  pointer a call returns is the registered one, and after any later calls that do not
  erase the entry, a call for the same identity returns the same pointer.
\<close>

theorem registry_at_most_once:
  fixes ws uid ts k fx
  defines "R \<equiv> WorkspaceStore_Workspace ws uid ts k fx"
  assumes "wf ws"
  shows "(\<forall>a. store ws uid = Some a \<longrightarrow>
            store (snd R) = store ws \<and> length (heap (snd R)) = length (heap ws)
            \<and> (\<forall>w. fst (fst R) = Some w \<longrightarrow> w = a))
       \<and> (store ws uid = None \<longrightarrow>
            (store (snd R) = store ws \<and> length (heap (snd R)) = length (heap ws)
               \<and> fst (fst R) = None)
            \<or> (store (snd R) = (store ws)(uid \<mapsto> length (heap ws))
               \<and> length (heap (snd R)) = Suc (length (heap ws))
               \<and> (\<forall>w. fst (fst R) = Some w \<longrightarrow> w = length (heap ws))))
       \<and> (store ws uid = None \<and> reaches_registry ws uid fx \<longrightarrow>
            store (snd R) = (store ws)(uid \<mapsto> length (heap ws))
            \<and> length (heap (snd R)) = Suc (length (heap ws)))
       \<and> (\<forall>w. fst (fst R) = Some w \<longrightarrow>
            store (snd R) uid = Some w
            \<and> (\<forall>cs ts2 fx2 w2.
                 (\<forall>c \<in> set cs. \<not> erases uid c)
                 \<and> fst (fst (WorkspaceStore_Workspace (run k (snd R) cs) uid ts2 k fx2)) = Some w2
                 \<longrightarrow> w2 = w))"
proof -
  obtain wo eo ws' where R': "WorkspaceStore_Workspace ws uid ts k fx = ((wo, eo), ws')"
    by (metis prod.exhaust)
  note reg = Workspace_registry[OF assms(2) R']
  have wf': "wf ws'" using Workspace_wf[OF assms(2), of uid ts k fx] R' by simp
  have 1: "\<forall>a. store ws uid = Some a \<longrightarrow>
            store ws' = store ws \<and> length (heap ws') = length (heap ws)
            \<and> (\<forall>w. wo = Some w \<longrightarrow> w = a)"
    using reg(1) by auto
  have 2: "store ws uid = None \<longrightarrow>
            (store ws' = store ws \<and> length (heap ws') = length (heap ws) \<and> wo = None)
            \<or> (store ws' = (store ws)(uid \<mapsto> length (heap ws))
               \<and> length (heap ws') = Suc (length (heap ws))
               \<and> (\<forall>w. wo = Some w \<longrightarrow> w = length (heap ws)))"
    using reg(2) by auto
  have 3: "store ws uid = None \<and> reaches_registry ws uid fx \<longrightarrow>
            store ws' = (store ws)(uid \<mapsto> length (heap ws))
            \<and> length (heap ws') = Suc (length (heap ws))"
    using reg(4) by blast
  have 4: "w2 = w"
    if "wo = Some w" "\<forall>c \<in> set cs. \<not> erases uid c"
      "fst (fst (WorkspaceStore_Workspace (run k ws' cs) uid ts2 k fx2)) = Some w2"
    for w cs ts2 fx2 w2
  proof -
    from reg(3)[OF that(1)] have s: "store ws' uid = Some w" by simp
    from run_keeps_entry[OF wf' s that(2), of k]
    have s': "store (run k ws' cs) uid = Some w" and w': "wf (run k ws' cs)" by simp_all
    obtain wo2 eo2 ws2 where
      R2: "WorkspaceStore_Workspace (run k ws' cs) uid ts2 k fx2 = ((wo2, eo2), ws2)"
      by (metis prod.exhaust)
    from Workspace_registry(1)[OF w' R2 s'] that(3) R2 show ?thesis by auto
  qed
  have 5: "\<forall>w. wo = Some w \<longrightarrow> store ws' uid = Some w" using reg(3) by blast
  from 1 2 3 4 5 show ?thesis unfolding R_def R' by simp blast
qed

theorem registry_at_most_once_witness:
  "wf fresh \<and> store fresh ''abc-123'' = None \<and> reaches_registry fresh ''abc-123'' quiet
   \<and> store (snd (WorkspaceStore_Workspace fresh ''abc-123'' demoSetup ''TF_REATTACH'' quiet))
       = (store fresh)(''abc-123'' \<mapsto> length (heap fresh))
   \<and> length (heap (snd (WorkspaceStore_Workspace fresh ''abc-123'' demoSetup ''TF_REATTACH'' quiet)))
       = Suc (length (heap fresh))
   \<and> wf afterFailedInit \<and> store afterFailedInit ''abc-123'' = Some 0
   \<and> length (heap afterSecondGet) = length (heap afterFailedInit)
   \<and> store afterSecondGet = store afterFailedInit"
proof -
  have a: "wf fresh" by (simp add: wf_def fresh_def NewWorkspaceStore_def)
  have b: "store fresh ''abc-123'' = None" by (simp add: fresh_def NewWorkspaceStore_def)
  have c: "reaches_registry fresh ''abc-123'' quiet" by code_simp
  have d: "wf afterFailedInit" unfolding afterFailedInit_def by (rule Workspace_wf[OF a])
  have e: "store afterFailedInit ''abc-123'' = Some 0" by code_simp
  have g: "store (snd (WorkspaceStore_Workspace fresh ''abc-123'' demoSetup ''TF_REATTACH'' quiet))
       = (store fresh)(''abc-123'' \<mapsto> length (heap fresh))
     \<and> length (heap (snd (WorkspaceStore_Workspace fresh ''abc-123'' demoSetup ''TF_REATTACH'' quiet)))
       = Suc (length (heap fresh))"
    using registry_at_most_once[OF a, of "''abc-123''" demoSetup "''TF_REATTACH''" quiet] b c
    by blast
  have h: "length (heap afterSecondGet) = length (heap afterFailedInit)
     \<and> store afterSecondGet = store afterFailedInit"
    using registry_at_most_once[OF d, of "''abc-123''" demoSetup "''TF_REATTACH''" quiet] e
    unfolding afterSecondGet_def by blast
  from a b c d e g h show ?thesis by blast
qed

text \<open>
  Claim C2 as stated fails: on a new store the first call for \<open>abc-123\<close> registers a
  Workspace and then returns it together with the error of a failed init; the second
  call is the first successful one, and it constructs nothing.
\<close>

theorem first_successful_Get_creates_nothing_counterexample:
  "store fresh ''abc-123'' = None
   \<and> fst (WorkspaceStore_Workspace fresh ''abc-123'' demoSetup ''TF_REATTACH'' initFails)
       = (Some 0, Some (WithMessage (ErrorString ''exit status 1'') ''cannot init workspace: boom''))
   \<and> length (heap afterFailedInit) = 1
   \<and> store afterFailedInit ''abc-123'' = Some 0
   \<and> fst (WorkspaceStore_Workspace afterFailedInit ''abc-123'' demoSetup ''TF_REATTACH'' quiet)
       = (Some 0, None)
   \<and> length (heap afterSecondGet) = 1"
  by code_simp




subsection \<open>Removal\<close>

text \<open>
  Claim C5. For a registered identity, when the recursive deletion of the directory
  fails, \<open>Remove\<close> returns the error wrapped as "cannot remove workspace folder" and
  the registry is unchanged, no entry being deleted, so that a retry whose deletion
  succeeds returns nil and erases the entry; when the deletion succeeds, the entry is
  erased, and it is erased after the deletion.
\<close>

theorem Remove_failure_keeps_entry:
  assumes "store ws uid = Some w"
  shows "(\<forall>m. fault = Some m \<longrightarrow>
            fst (WorkspaceStore_Remove ws uid fault)
              = Some (WithMessage (ErrorString m) ''cannot remove workspace folder'')
            \<and> store (snd (WorkspaceStore_Remove ws uid fault)) = store ws
            \<and> MapDelete uid \<notin> set (events_of ws (snd (WorkspaceStore_Remove ws uid fault)))
            \<and> fst (WorkspaceStore_Remove (snd (WorkspaceStore_Remove ws uid fault)) uid None) = None
            \<and> store (snd (WorkspaceStore_Remove (snd (WorkspaceStore_Remove ws uid fault)) uid None)) uid
                = None)
       \<and> (fault = None \<longrightarrow>
            fst (WorkspaceStore_Remove ws uid fault) = None
            \<and> store (snd (WorkspaceStore_Remove ws uid fault)) = (store ws)(uid := None)
            \<and> events_of ws (snd (WorkspaceStore_Remove ws uid fault))
                = [MuLock, MapLookup uid, FsRemoveAll (dir (deref ws w)), MapDelete uid, MuUnlock])"
proof (cases fault)
  case None
  with Remove_registered(3)[OF assms, of None] Remove_registered(1)[OF assms, of None]
  show ?thesis by simp
next
  case (Some m)
  let ?ws' = "snd (WorkspaceStore_Remove ws uid (Some m))"
  note f = Remove_registered(2)[OF assms, of "Some m" m, simplified]
  then have s: "store ?ws' uid = Some w" using assms by simp
  from Remove_registered(3)[OF s, of None] Remove_registered(1)[OF assms, of "Some m"] f Some
  show ?thesis by simp
qed

theorem Remove_failure_keeps_entry_witness:
  "store afterSecondGet ''abc-123'' = Some 0
   \<and> fst (WorkspaceStore_Remove afterSecondGet ''abc-123'' (Some ''device busy''))
       = Some (WithMessage (ErrorString ''device busy'') ''cannot remove workspace folder'')
   \<and> store (snd (WorkspaceStore_Remove afterSecondGet ''abc-123'' (Some ''device busy''))) ''abc-123''
       = Some 0
   \<and> fst (WorkspaceStore_Remove afterSecondGet ''abc-123'' None) = None
   \<and> store (snd (WorkspaceStore_Remove afterSecondGet ''abc-123'' None)) ''abc-123'' = None"
proof -
  have a: "store afterSecondGet ''abc-123'' = Some 0" by code_simp
  from Remove_failure_keeps_entry[OF a, of "Some ''device busy''"]
       Remove_failure_keeps_entry[OF a, of None] a
  show ?thesis by simp
qed

text \<open>
  Claim C6. For an identity with no registered Workspace, \<open>Remove\<close> returns nil, calls no
  file-system operation (its only events are the lock, the lookup and the unlock, and
  the file system is as before) and leaves the registry unchanged.
\<close>

theorem Remove_unregistered_noop:
  assumes "store ws uid = None"
  shows "fst (WorkspaceStore_Remove ws uid fault) = None
       \<and> store (snd (WorkspaceStore_Remove ws uid fault)) = store ws
       \<and> fs (snd (WorkspaceStore_Remove ws uid fault)) = fs ws
       \<and> events_of ws (snd (WorkspaceStore_Remove ws uid fault)) = [MuLock, MapLookup uid, MuUnlock]"
  using Remove_unregistered[OF assms, of fault] by simp

theorem Remove_unregistered_noop_witness:
  "store afterSecondGet ''xyz-789'' = None
   \<and> fst (WorkspaceStore_Remove afterSecondGet ''xyz-789'' (Some ''device busy'')) = None
   \<and> store (snd (WorkspaceStore_Remove afterSecondGet ''xyz-789'' (Some ''device busy''))) ''abc-123''
       = Some 0
   \<and> events_of afterSecondGet (snd (WorkspaceStore_Remove afterSecondGet ''xyz-789'' (Some ''device busy'')))
       = [MuLock, MapLookup ''xyz-789'', MuUnlock]"
proof -
  have a: "store afterSecondGet ''xyz-789'' = None" by code_simp
  have b: "store afterSecondGet ''abc-123'' = Some 0" by code_simp
  from Remove_unregistered_noop[OF a, of "Some ''device busy''"] a b
  show ?thesis by simp
qed


subsection \<open>The scope of the lock\<close>






subsection \<open>Initialisation, environment and files\<close>

lemma Workspace_env:
  assumes "wf ws" and R: "WorkspaceStore_Workspace ws uid ts k fx = ((Some w, e), ws')"
  shows "\<exists>att. runnerStart fx = Inr att \<and> env (deref ws' w) = Env ts @ [k @ ''='' @ att]"
  using R
proof (cases rule: Workspace_elim)
  case (early err)
  then show ?thesis by simp
next
  case (late att ws1 w' ws2)
  from prepare_frame[OF late(1)] assms(1) have "wf ws1" by (simp add: wf_def)
  from register_wf[OF late(2) this] have lt: "w' < length (heap ws2)" by simp
  from initialise_frame[OF late(3)] have "w = w'" by simp
  with initialise_env[OF late(3) lt]
  have "env (deref ws' w) = Env ts @ [Sprintf_fmtEnv k att]" by simp
  with prepare_ok[OF late(1)] show ?thesis by (simp add: Sprintf_fmtEnv_def)
qed

lemma Workspace_fs:
  fixes ws uid
  defines "d \<equiv> Join (tempDir ws) uid"
  assumes R: "WorkspaceStore_Workspace ws uid ts k fx = (res, ws')"
  shows "fs ws (Join d ''terraform.tfstate'') \<noteq> None \<Longrightarrow>
           FsWriteFile (Join d ''terraform.tfstate'') \<notin> set (events_of ws ws')"
    and "fs ws (Join d ''terraform.tfstate'') \<noteq> None \<Longrightarrow>
           \<forall>f. initFs fx f (Join d ''terraform.tfstate'') = f (Join d ''terraform.tfstate'') \<Longrightarrow>
           fs ws' (Join d ''terraform.tfstate'') = fs ws (Join d ''terraform.tfstate'')"
    and "fs ws d = Some DirNode \<Longrightarrow> FileProducerNew d \<in> set (events_of ws ws')"
    and "fst res = Some w \<Longrightarrow> \<forall>f. f d = Some DirNode \<longrightarrow> initFs fx f d = Some DirNode \<Longrightarrow>
           fs ws' d = Some DirNode"
    and "fs ws (Join d ''terraform.tfstate'') = None \<Longrightarrow> reaches_registry ws uid fx \<Longrightarrow>
           FsWriteFile (Join d ''terraform.tfstate'') \<in> set (events_of ws ws')"
proof -
  let ?sp = "Join d ''terraform.tfstate''"
  show "FsWriteFile ?sp \<notin> set (events_of ws ws')" if "fs ws ?sp \<noteq> None"
    using R
  proof (cases rule: Workspace_elim)
    case (early err)
    from prepare_state_file[OF early(1)[folded d_def] that] show ?thesis by simp
  next
    case (late att ws1 w' ws2)
    note l = late[folded d_def]
    from prepare_state_file[OF l(1) that] register_events[OF l(2)] initialise_no_write[OF l(3)]
      late_events[OF l]
    show ?thesis by auto
  qed
  show "fs ws' ?sp = fs ws ?sp"
    if "fs ws ?sp \<noteq> None" "\<forall>f. initFs fx f ?sp = f ?sp"
    using R
  proof (cases rule: Workspace_elim)
    case (early err)
    from prepare_state_file[OF early(1)[folded d_def] that(1)] show ?thesis by simp
  next
    case (late att ws1 w' ws2)
    note l = late[folded d_def]
    from prepare_state_file[OF l(1) that(1)] register_frame[OF l(2)] initialise_fs[OF l(3)] that(2)
    show ?thesis by auto
  qed
  show "FileProducerNew d \<in> set (events_of ws ws')" if "fs ws d = Some DirNode"
    using R
  proof (cases rule: Workspace_elim)
    case (early err)
    from prepare_existing_dir[OF early(1)[folded d_def] that] show ?thesis .
  next
    case (late att ws1 w' ws2)
    note l = late[folded d_def]
    from prepare_existing_dir[OF l(1) that] late_events[OF l] show ?thesis by simp
  qed
  show "fs ws' d = Some DirNode"
    if "fst res = Some w" "\<forall>f. f d = Some DirNode \<longrightarrow> initFs fx f d = Some DirNode"
    using R
  proof (cases rule: Workspace_elim)
    case (early err)
    with that(1) show ?thesis by simp
  next
    case (late att ws1 w' ws2)
    note l = late[folded d_def]
    from prepare_ok[OF l(1)] register_frame[OF l(2)] initialise_fs[OF l(3)] that(2)
    show ?thesis by auto
  qed
  show "FsWriteFile ?sp \<in> set (events_of ws ws')"
    if "fs ws ?sp = None" "reaches_registry ws uid fx"
    using R
  proof (cases rule: Workspace_elim)
    case (early err)
    with prepare_reaches(1)[OF that(2)] show ?thesis by simp
  next
    case (late att ws1 w' ws2)
    note l = late[folded d_def]
    from prepare_reaches(2)[OF that(2) that(1)[unfolded d_def]] l(1) late_events[OF l]
    show ?thesis by (simp add: d_def)
  qed
qed

lemma Workspace_init:
  fixes ws uid
  defines "lockFile \<equiv> Join (Join (tempDir ws) uid) ''.terraform.lock.hcl''"
  assumes "wf ws" and "reaches_registry ws uid fx" and "statLockFault fx = None"
    and R: "WorkspaceStore_Workspace ws uid ts k fx = (res, ws')"
  shows "\<exists>w. store ws' uid = Some w \<and> w < length (heap ws')
     \<and> (fs ws lockFile = None \<longrightarrow>
          (\<exists>p. ExecTerraformInit p \<in> set (events_of ws ws'))
          \<and> res = (Some w, Wrap (initErr fx) (''cannot init workspace: '' @ initOut fx)))
     \<and> (fs ws lockFile \<noteq> None \<longrightarrow>
          res = (Some w, None) \<and> (\<forall>p. ExecTerraformInit p \<notin> set (events_of ws ws')))"
  using R
proof (cases rule: Workspace_elim)
  case (early err)
  with prepare_reaches(1)[OF assms(3)] show ?thesis by simp
next
  case (late att ws1 w ws2)
  from prepare_frame[OF late(1)] assms(2) have "wf ws1" by (simp add: wf_def)
  from register_wf[OF late(2) this] have lt: "w < length (heap ws2)" by simp
  have s2: "store ws2 uid = Some w" and f2: "fs ws2 = fs ws1" using register_frame[OF late(2)] by simp_all
  have f1: "fs ws1 lockFile = fs ws lockFile" using prepare_ok[OF late(1)] by (simp add: lockFile_def)
  note fr = initialise_frame[OF late(3)]
  have a: "store ws' uid = Some w \<and> w < length (heap ws')" using fr s2 lt by simp
  note ev = late_events[OF late]
  have b: "(\<exists>p. ExecTerraformInit p \<in> set (events_of ws ws'))
          \<and> res = (Some w, Wrap (initErr fx) (''cannot init workspace: '' @ initOut fx))"
    if "fs ws lockFile = None"
  proof -
    from that f1 f2 have "fs ws2 (Join (Join (tempDir ws) uid) ''.terraform.lock.hcl'') = None"
      by (simp add: lockFile_def)
    from initialise_lock_absent[OF late(3) assms(4) this lt] ev show ?thesis by auto
  qed
  have c: "res = (Some w, None) \<and> (\<forall>p. ExecTerraformInit p \<notin> set (events_of ws ws'))"
    if "fs ws lockFile \<noteq> None"
  proof -
    from that f1 f2 have "fs ws2 (Join (Join (tempDir ws) uid) ''.terraform.lock.hcl'') \<noteq> None"
      by (simp add: lockFile_def)
    from initialise_lock_present[OF late(3) assms(4) this] ev prepare_no_exec[OF late(1)]
      register_events[OF late(2)]
    show ?thesis by auto
  qed
  show ?thesis by (rule exI[of _ w]) (use a b c in simp)
qed

text \<open>
  Claim C10. Let a call of \<open>Workspace\<close> get as far as the critical section and let the
  stat of the lock file not fail. The call then returns the registered Workspace. If
  the lock file is absent, \<open>terraform init\<close> is run: when it fails with \<open>e\<close>, the call
  returns the Workspace together with \<open>e\<close> wrapped as "cannot init workspace: " followed
  by the output, and when it succeeds, the error is nil. If the lock file exists, init
  is not run and the error is nil.
\<close>

theorem init_failure_returns_workspace_and_error:
  fixes ws uid ts k fx
  defines "R \<equiv> WorkspaceStore_Workspace ws uid ts k fx"
    and "lockFile \<equiv> Join (Join (tempDir ws) uid) ''.terraform.lock.hcl''"
  assumes "wf ws" and "reaches_registry ws uid fx" and "statLockFault fx = None"
  shows "\<exists>w. store (snd R) uid = Some w \<and> w < length (heap (snd R))
     \<and> (fs ws lockFile = None \<longrightarrow>
          (\<exists>p. ExecTerraformInit p \<in> set (events_of ws (snd R)))
          \<and> (\<forall>e. initErr fx = Some e \<longrightarrow>
                fst R = (Some w, Some (WithMessage e (''cannot init workspace: '' @ initOut fx))))
          \<and> (initErr fx = None \<longrightarrow> fst R = (Some w, None)))
     \<and> (fs ws lockFile \<noteq> None \<longrightarrow>
          fst R = (Some w, None) \<and> (\<forall>p. ExecTerraformInit p \<notin> set (events_of ws (snd R))))"
proof -
  have "WorkspaceStore_Workspace ws uid ts k fx = (fst R, snd R)" by (simp add: R_def)
  from Workspace_init[OF assms(3,4,5) this] obtain w where
    w: "store (snd R) uid = Some w \<and> w < length (heap (snd R))
     \<and> (fs ws (Join (Join (tempDir ws) uid) ''.terraform.lock.hcl'') = None \<longrightarrow>
          (\<exists>p. ExecTerraformInit p \<in> set (events_of ws (snd R)))
          \<and> fst R = (Some w, Wrap (initErr fx) (''cannot init workspace: '' @ initOut fx)))
     \<and> (fs ws (Join (Join (tempDir ws) uid) ''.terraform.lock.hcl'') \<noteq> None \<longrightarrow>
          fst R = (Some w, None) \<and> (\<forall>p. ExecTerraformInit p \<notin> set (events_of ws (snd R))))" ..
  show ?thesis unfolding lockFile_def
    by (rule exI[of _ w]) (use w in auto)
qed

theorem init_failure_returns_workspace_and_error_witness:
  "wf fresh \<and> reaches_registry fresh ''abc-123'' initFails \<and> statLockFault initFails = None
   \<and> fs fresh (Join (Join (tempDir fresh) ''abc-123'') ''.terraform.lock.hcl'') = None
   \<and> initErr initFails = Some (ErrorString ''exit status 1'')
   \<and> (\<exists>w. store (snd (WorkspaceStore_Workspace fresh ''abc-123'' demoSetup ''TF_REATTACH'' initFails)) ''abc-123''
             = Some w
          \<and> fst (WorkspaceStore_Workspace fresh ''abc-123'' demoSetup ''TF_REATTACH'' initFails)
             = (Some w, Some (WithMessage (ErrorString ''exit status 1'')
                  (''cannot init workspace: '' @ initOut initFails))))"
proof -
  have a: "wf fresh" by (simp add: wf_def fresh_def NewWorkspaceStore_def)
  have b: "reaches_registry fresh ''abc-123'' initFails" by code_simp
  have c: "statLockFault initFails = None" by code_simp
  have d: "fs fresh (Join (Join (tempDir fresh) ''abc-123'') ''.terraform.lock.hcl'') = None"
    by (simp add: fresh_def NewWorkspaceStore_def)
  have e: "initErr initFails = Some (ErrorString ''exit status 1'')" by code_simp
  from init_failure_returns_workspace_and_error[OF a b c, of demoSetup "''TF_REATTACH''"] d e
  have "\<exists>w. store (snd (WorkspaceStore_Workspace fresh ''abc-123'' demoSetup ''TF_REATTACH'' initFails)) ''abc-123''
             = Some w
          \<and> fst (WorkspaceStore_Workspace fresh ''abc-123'' demoSetup ''TF_REATTACH'' initFails)
             = (Some w, Some (WithMessage (ErrorString ''exit status 1'')
                  (''cannot init workspace: '' @ initOut initFails)))"
    by blast
  with a b c d e show ?thesis by blast
qed

text \<open>
  Claim C8. After a successful call of \<open>Workspace\<close>, the environment of the returned
  Workspace is the setup's environment followed by one variable, the key
  \<open>envReattachConfig\<close>, an equals sign and the attachment configuration the provider
  runner answered. A further successful call for the same identity returns the same
  Workspace, whose environment is then the environment of that call's setup followed
  by that call's one variable: nothing accumulates.
\<close>

theorem env_after_successful_Get:
  fixes ws uid ts k fx
  defines "R \<equiv> WorkspaceStore_Workspace ws uid ts k fx"
  assumes "wf ws" and "fst R = (Some w, None)"
  shows "(\<exists>att. runnerStart fx = Inr att \<and> env (deref (snd R) w) = Env ts @ [k @ ''='' @ att])
       \<and> (\<forall>ts2 fx2 w2.
            fst (WorkspaceStore_Workspace (snd R) uid ts2 k fx2) = (Some w2, None) \<longrightarrow>
            w2 = w
            \<and> (\<exists>att2. runnerStart fx2 = Inr att2
                 \<and> env (deref (snd (WorkspaceStore_Workspace (snd R) uid ts2 k fx2)) w)
                     = Env ts2 @ [k @ ''='' @ att2]))"
proof -
  have R': "WorkspaceStore_Workspace ws uid ts k fx = ((Some w, None), snd R)"
    using assms(3) by (simp add: R_def prod_eq_iff)
  have 1: "\<exists>att. runnerStart fx = Inr att \<and> env (deref (snd R) w) = Env ts @ [k @ ''='' @ att]"
    by (rule Workspace_env[OF assms(2) R'])
  have wf': "wf (snd R)" unfolding R_def by (rule Workspace_wf[OF assms(2)])
  have s: "store (snd R) uid = Some w" using Workspace_registry(3)[OF assms(2) R'] by simp
  have 2: "w2 = w
            \<and> (\<exists>att2. runnerStart fx2 = Inr att2
                 \<and> env (deref (snd (WorkspaceStore_Workspace (snd R) uid ts2 k fx2)) w)
                     = Env ts2 @ [k @ ''='' @ att2])"
    if "fst (WorkspaceStore_Workspace (snd R) uid ts2 k fx2) = (Some w2, None)" for ts2 fx2 w2
  proof -
    let ?R2 = "WorkspaceStore_Workspace (snd R) uid ts2 k fx2"
    have R2: "?R2 = ((Some w2, None), snd ?R2)" using that by (simp add: prod_eq_iff)
    from Workspace_registry(1)[OF wf' R2 s] have "w2 = w" by simp
    with Workspace_env[OF wf' R2] show ?thesis by simp
  qed
  from 1 2 show ?thesis by blast
qed

theorem env_after_successful_Get_witness:
  "wf afterFailedInit
   \<and> fst (WorkspaceStore_Workspace afterFailedInit ''abc-123'' demoSetup ''TF_REATTACH'' quiet)
       = (Some 0, None)
   \<and> runnerStart quiet = Inr ''cfg1''
   \<and> env (deref afterSecondGet 0) = Env demoSetup @ [''TF_REATTACH'' @ ''='' @ ''cfg1'']"
proof -
  have a: "wf fresh" by (simp add: wf_def fresh_def NewWorkspaceStore_def)
  have d: "wf afterFailedInit" unfolding afterFailedInit_def by (rule Workspace_wf[OF a])
  have b: "fst (WorkspaceStore_Workspace afterFailedInit ''abc-123'' demoSetup ''TF_REATTACH'' quiet)
       = (Some 0, None)" by code_simp
  have c: "runnerStart quiet = Inr ''cfg1''" by code_simp
  from env_after_successful_Get[OF d b] c
  have "env (deref afterSecondGet 0) = Env demoSetup @ [''TF_REATTACH'' @ ''='' @ ''cfg1'']"
    unfolding afterSecondGet_def by auto
  with d b c show ?thesis by blast
qed


lemma Workspace_tempDir:
  assumes "WorkspaceStore_Workspace ws uid ts k fx = (res, ws')"
  shows "tempDir ws' = tempDir ws"
  using assms
proof (cases rule: Workspace_elim)
  case (early err)
  from prepare_frame[OF early(1)] show ?thesis by simp
next
  case (late att ws1 w' ws2)
  from prepare_frame[OF late(1)] register_frame[OF late(2)] initialise_frame[OF late(3)]
  show ?thesis by simp
qed

text \<open>
  Claim C7. With \<open>d\<close> the directory of the resource: a call of \<open>Workspace\<close> that finds
  a state file in \<open>d\<close> does not write \<open>terraform.tfstate\<close>, and the file is afterwards
  what it was unless the init command itself changes it; a call writes the state file
  only when it was absent, and does write it when it was absent and the steps before
  the lock succeed. A directory that already exists never stops a call at \<open>MkdirAll\<close>:
  the call goes on to the file producer. After a call that returned a Workspace the
  directory exists (the init command not removing it), so a second call for the same
  identity, whatever the collaborators answer, goes on to the file producer as well.
\<close>

theorem state_file_and_directory_idempotence:
  fixes ws uid ts k fx
  defines "R \<equiv> WorkspaceStore_Workspace ws uid ts k fx"
    and "d \<equiv> Join (tempDir ws) uid"
  shows "(fs ws (Join d ''terraform.tfstate'') \<noteq> None \<longrightarrow>
            FsWriteFile (Join d ''terraform.tfstate'') \<notin> set (events_of ws (snd R))
            \<and> ((\<forall>f. initFs fx f (Join d ''terraform.tfstate'') = f (Join d ''terraform.tfstate''))
                 \<longrightarrow> fs (snd R) (Join d ''terraform.tfstate'') = fs ws (Join d ''terraform.tfstate'')))
       \<and> (FsWriteFile (Join d ''terraform.tfstate'') \<in> set (events_of ws (snd R)) \<longrightarrow>
            fs ws (Join d ''terraform.tfstate'') = None)
       \<and> (fs ws (Join d ''terraform.tfstate'') = None \<and> reaches_registry ws uid fx \<longrightarrow>
            FsWriteFile (Join d ''terraform.tfstate'') \<in> set (events_of ws (snd R)))
       \<and> (fs ws d = Some DirNode \<longrightarrow> FileProducerNew d \<in> set (events_of ws (snd R)))
       \<and> (\<forall>w. fst (fst R) = Some w \<and> (\<forall>f. f d = Some DirNode \<longrightarrow> initFs fx f d = Some DirNode) \<longrightarrow>
            fs (snd R) d = Some DirNode
            \<and> (\<forall>ts2 fx2. FileProducerNew d
                  \<in> set (events_of (snd R) (snd (WorkspaceStore_Workspace (snd R) uid ts2 k fx2)))))"
proof -
  have R': "WorkspaceStore_Workspace ws uid ts k fx = (fst R, snd R)" by (simp add: R_def)
  note f = Workspace_fs[OF R', folded d_def]
  have 1: "FsWriteFile (Join d ''terraform.tfstate'') \<notin> set (events_of ws (snd R))"
    if "fs ws (Join d ''terraform.tfstate'') \<noteq> None"
    using f(1)[OF that] .
  have 2: "fs (snd R) (Join d ''terraform.tfstate'') = fs ws (Join d ''terraform.tfstate'')"
    if "fs ws (Join d ''terraform.tfstate'') \<noteq> None"
      "\<forall>f. initFs fx f (Join d ''terraform.tfstate'') = f (Join d ''terraform.tfstate'')"
    using f(2)[OF that] .
  have 3: "FsWriteFile (Join d ''terraform.tfstate'') \<in> set (events_of ws (snd R))"
    if "fs ws (Join d ''terraform.tfstate'') = None" "reaches_registry ws uid fx"
    using f(5)[OF that] .
  have 4: "FileProducerNew d \<in> set (events_of ws (snd R))" if "fs ws d = Some DirNode"
    using f(3)[OF that] .
  have 5: "fs (snd R) d = Some DirNode
            \<and> (\<forall>ts2 fx2. FileProducerNew d
                  \<in> set (events_of (snd R) (snd (WorkspaceStore_Workspace (snd R) uid ts2 k fx2))))"
    if "fst (fst R) = Some w" "\<forall>f. f d = Some DirNode \<longrightarrow> initFs fx f d = Some DirNode" for w
  proof -
    have dir: "fs (snd R) d = Some DirNode" using f(4)[OF that] .
    have td: "tempDir (snd R) = tempDir ws" by (rule Workspace_tempDir[OF R'])
    have "FileProducerNew d \<in> set (events_of (snd R) (snd (WorkspaceStore_Workspace (snd R) uid ts2 k fx2)))"
      for ts2 fx2
    proof -
      have R2: "WorkspaceStore_Workspace (snd R) uid ts2 k fx2
                  = (fst (WorkspaceStore_Workspace (snd R) uid ts2 k fx2),
                     snd (WorkspaceStore_Workspace (snd R) uid ts2 k fx2))" by simp
      from Workspace_fs(3)[OF R2] dir td show ?thesis by (simp add: d_def)
    qed
    with dir show ?thesis by simp
  qed
  have c1: "fs ws (Join d ''terraform.tfstate'') \<noteq> None \<longrightarrow>
            FsWriteFile (Join d ''terraform.tfstate'') \<notin> set (events_of ws (snd R))
            \<and> ((\<forall>f. initFs fx f (Join d ''terraform.tfstate'') = f (Join d ''terraform.tfstate''))
                 \<longrightarrow> fs (snd R) (Join d ''terraform.tfstate'') = fs ws (Join d ''terraform.tfstate''))"
  proof (intro impI conjI)
    assume p: "fs ws (Join d ''terraform.tfstate'') \<noteq> None"
    show "FsWriteFile (Join d ''terraform.tfstate'') \<notin> set (events_of ws (snd R))"
      by (rule 1[OF p])
    assume q: "\<forall>f. initFs fx f (Join d ''terraform.tfstate'') = f (Join d ''terraform.tfstate'')"
    show "fs (snd R) (Join d ''terraform.tfstate'') = fs ws (Join d ''terraform.tfstate'')"
      by (rule 2[OF p q])
  qed
  have c2: "FsWriteFile (Join d ''terraform.tfstate'') \<in> set (events_of ws (snd R)) \<longrightarrow>
            fs ws (Join d ''terraform.tfstate'') = None"
  proof (rule impI, rule ccontr)
    assume m: "FsWriteFile (Join d ''terraform.tfstate'') \<in> set (events_of ws (snd R))"
      and n: "fs ws (Join d ''terraform.tfstate'') \<noteq> None"
    from 1[OF n] m show False by (rule notE)
  qed
  have c3: "fs ws (Join d ''terraform.tfstate'') = None \<and> reaches_registry ws uid fx \<longrightarrow>
            FsWriteFile (Join d ''terraform.tfstate'') \<in> set (events_of ws (snd R))"
  proof (rule impI, elim conjE)
    assume "fs ws (Join d ''terraform.tfstate'') = None" "reaches_registry ws uid fx"
    then show "FsWriteFile (Join d ''terraform.tfstate'') \<in> set (events_of ws (snd R))"
      by (rule 3)
  qed
  have c4: "fs ws d = Some DirNode \<longrightarrow> FileProducerNew d \<in> set (events_of ws (snd R))"
    by (rule impI) (rule 4)
  have c5: "\<forall>w. fst (fst R) = Some w \<and> (\<forall>f. f d = Some DirNode \<longrightarrow> initFs fx f d = Some DirNode) \<longrightarrow>
            fs (snd R) d = Some DirNode
            \<and> (\<forall>ts2 fx2. FileProducerNew d
                  \<in> set (events_of (snd R) (snd (WorkspaceStore_Workspace (snd R) uid ts2 k fx2))))"
  proof (rule allI, rule impI, elim conjE)
    fix w
    assume "fst (fst R) = Some w" "\<forall>f. f d = Some DirNode \<longrightarrow> initFs fx f d = Some DirNode"
    then show "fs (snd R) d = Some DirNode
            \<and> (\<forall>ts2 fx2. FileProducerNew d
                  \<in> set (events_of (snd R) (snd (WorkspaceStore_Workspace (snd R) uid ts2 k fx2))))"
      by (rule 5)
  qed
  show ?thesis by (rule conjI[OF c1 conjI[OF c2 conjI[OF c3 conjI[OF c4 c5]]]])
qed

theorem state_file_and_directory_idempotence_witness:
  "fs afterFailedInit (Join (Join (tempDir afterFailedInit) ''abc-123'') ''terraform.tfstate'')
     = Some (FileNode ''{}'')
   \<and> FsWriteFile (Join (Join (tempDir afterFailedInit) ''abc-123'') ''terraform.tfstate'')
       \<notin> set (events_of afterFailedInit afterSecondGet)
   \<and> fs afterSecondGet (Join (Join (tempDir afterFailedInit) ''abc-123'') ''terraform.tfstate'')
       = Some (FileNode ''{}'')
   \<and> fs fresh (Join (Join (tempDir fresh) ''abc-123'') ''terraform.tfstate'') = None
   \<and> reaches_registry fresh ''abc-123'' initFails
   \<and> FsWriteFile (Join (Join (tempDir fresh) ''abc-123'') ''terraform.tfstate'')
       \<in> set (events_of fresh afterFailedInit)
   \<and> fs afterFailedInit (Join (tempDir afterFailedInit) ''abc-123'') = Some DirNode
   \<and> FileProducerNew (Join (tempDir afterFailedInit) ''abc-123'')
       \<in> set (events_of afterFailedInit afterSecondGet)
   \<and> fst (fst (WorkspaceStore_Workspace fresh ''abc-123'' demoSetup ''TF_REATTACH'' initFails)) = Some 0
   \<and> fs afterFailedInit (Join (tempDir fresh) ''abc-123'') = Some DirNode"
proof -
  let ?sp1 = "Join (Join (tempDir afterFailedInit) ''abc-123'') ''terraform.tfstate''"
  have a: "fs afterFailedInit ?sp1 = Some (FileNode ''{}'')" by code_simp
  have b: "\<forall>f. initFs quiet f ?sp1 = f ?sp1" by (simp add: quiet_def)
  have c: "fs fresh (Join (Join (tempDir fresh) ''abc-123'') ''terraform.tfstate'') = None"
    by (simp add: fresh_def NewWorkspaceStore_def)
  have d: "reaches_registry fresh ''abc-123'' initFails" by code_simp
  have e: "fs afterFailedInit (Join (tempDir afterFailedInit) ''abc-123'') = Some DirNode"
    by code_simp
  have g: "fst (fst (WorkspaceStore_Workspace fresh ''abc-123'' demoSetup ''TF_REATTACH'' initFails)) = Some 0"
    by code_simp
  have h: "\<forall>f. f (Join (tempDir fresh) ''abc-123'') = Some DirNode
            \<longrightarrow> initFs initFails f (Join (tempDir fresh) ''abc-123'') = Some DirNode"
    by (simp add: initFails_def quiet_def)
  note t1 = state_file_and_directory_idempotence[of afterFailedInit "''abc-123''" demoSetup "''TF_REATTACH''" quiet,
      folded afterSecondGet_def]
  note t2 = state_file_and_directory_idempotence[of fresh "''abc-123''" demoSetup "''TF_REATTACH''" initFails,
      folded afterFailedInit_def]
  have 1: "FsWriteFile ?sp1 \<notin> set (events_of afterFailedInit afterSecondGet)
       \<and> fs afterSecondGet ?sp1 = Some (FileNode ''{}'')"
    using t1[THEN conjunct1] a b by simp
  have 2: "FsWriteFile (Join (Join (tempDir fresh) ''abc-123'') ''terraform.tfstate'')
       \<in> set (events_of fresh afterFailedInit)"
    using t2[THEN conjunct2, THEN conjunct2, THEN conjunct1] c d by simp
  have 3: "FileProducerNew (Join (tempDir afterFailedInit) ''abc-123'')
       \<in> set (events_of afterFailedInit afterSecondGet)"
    using t1[THEN conjunct2, THEN conjunct2, THEN conjunct2, THEN conjunct1] e by simp
  have 4: "fs afterFailedInit (Join (tempDir fresh) ''abc-123'') = Some DirNode"
    using t2[THEN conjunct2, THEN conjunct2, THEN conjunct2, THEN conjunct2, THEN spec, of 0] g h
    by simp
  from a c d e g 1 2 3 4 show ?thesis by simp
qed

end
